theory Spec2Isabelle
  imports Main "HOL-Library.Multiset"
begin

section \<open>The server store of \<^verbatim>\<open>src/apps/app-frontend/src/store/servers.ts\<close>\<close>

text \<open>
  The store is a Pinia store with two state fields, \<^verbatim>\<open>serverData\<close> (the cache, an object
  used as a dictionary from server identifier to server record) and \<^verbatim>\<open>error\<close>
  (\<^verbatim>\<open>Error | null\<close>). Its actions await the helpers \<^verbatim>\<open>usePyroFetch\<close> and \<^verbatim>\<open>useFetch\<close>,
  which are imported and not part of the file: they are a parameter of the model
  (\<open>backend\<close>), and each awaited call either fulfils with a value (\<open>Inr\<close>) or rejects with a
  thrown value (\<open>Inl\<close>). Every action is a function from the store state to a \<open>result\<close>:
  what the call returns or throws, the store state afterwards, and the lines written to
  the console.

  Modelling decisions:
  \<^item> the cache is the plain object \<^verbatim>\<open>{}\<close>: the map \<open>serverData\<close> holds its own properties,
    and a read \<^verbatim>\<open>this.serverData[serverId]\<close> (\<open>lookup\<close>) that finds no own property goes on
    to what the object inherits, the members of \<^verbatim>\<open>Object.prototype\<close>. An assignment to
    \<^verbatim>\<open>this.serverData['__proto__']\<close> makes the assigned record the prototype of the cache
    object; the map keeps that record under the key \<^verbatim>\<open>__proto__\<close>, and \<open>lookup\<close> inherits from
    it. A record is taken to have no field that is itself named \<^verbatim>\<open>__proto__\<close>;
  \<^item> a promise is its settled outcome: the actions of one store run one after the other
    (interleaving of concurrent actions is not modelled);
  \<^item> a value fetched from the backend is a fresh value (no aliasing with a cache entry).
\<close>

subsection \<open>Values\<close>

text \<open>
  Modelled from the spec: the type \<^verbatim>\<open>ServerBackup\<close> of \<^verbatim>\<open>@/types/servers\<close>, which is imported
  and not part of the file. The spec gives its attributes as identifier, name and creation
  timestamp. The type of the timestamp is a parameter \<open>'t\<close>; the comparison
  \<^verbatim>\<open>a.created_at > b.created_at\<close> is the order of \<open>'t\<close> (for JavaScript strings the
  lexicographic order of the code units, for numbers the numeric order). The properties
  of a backup are taken to be named \<^verbatim>\<open>id\<close>, \<^verbatim>\<open>name\<close> and \<^verbatim>\<open>created_at\<close>.
\<close>

record 't ServerBackup =
  backup_id :: string
  backup_name :: string
  created_at :: 't

text \<open>
  JavaScript values, as far as the store looks at them: it tests truthiness
  (\<^verbatim>\<open>if (data.modpack)\<close>), reads properties (\<^verbatim>\<open>pid.project_id\<close>, \<^verbatim>\<open>pid.id\<close>), tests
  \<^verbatim>\<open>instanceof Error\<close>, and builds objects. \<open>ErrorObj m\<close> is an instance of \<^verbatim>\<open>Error\<close> with
  message \<open>m\<close>; \<open>Backups\<close> is an array typed \<^verbatim>\<open>ServerBackup[]\<close>, \<open>Backup\<close> one of its elements
  and \<open>Timestamp\<close> the value of a \<^verbatim>\<open>created_at\<close>. \<open>Builtin n\<close> is a function or object that
  the engine provides, such as \<^verbatim>\<open>Object.prototype.toString\<close> (\<open>Builtin ''toString''\<close>) and
  \<^verbatim>\<open>Object.prototype\<close> itself.
\<close>

datatype 't val =
    Undefined
  | Null
  | Bool bool
  | Num int
  | Str string
  | Arr "'t val list"
  | Obj "string \<Rightarrow> 't val option"
  | Backups "'t ServerBackup list"
  | ErrorObj string
  | Backup "'t ServerBackup"
  | Timestamp 't
  | Builtin string

text \<open>An object is a map from property names to values; \<^verbatim>\<open>Server\<close>, \<^verbatim>\<open>Partial<Server>\<close> and
  \<^verbatim>\<open>Project\<close> are objects.\<close>

type_synonym 't object = "string \<Rightarrow> 't val option"

text \<open>\<^verbatim>\<open>o.k\<close> on an object: the value of the property, \<^verbatim>\<open>undefined\<close> when the object has
  no such property.\<close>

definition get :: "'t object \<Rightarrow> string \<Rightarrow> 't val" where
  "get obj k = (case obj k of None \<Rightarrow> Undefined | Some v \<Rightarrow> v)"

text \<open>JavaScript's \<^verbatim>\<open>ToBoolean\<close>. Objects and functions are truthy. A timestamp on its own
  is reached only by reading \<^verbatim>\<open>created_at\<close> out of a backup, which the store never does; it
  is taken to be truthy (a non-empty string, a number other than 0, a date).\<close>

fun truthy :: "'t val \<Rightarrow> bool" where
  "truthy Undefined = False"
| "truthy Null = False"
| "truthy (Bool b) = b"
| "truthy (Num n) = (n \<noteq> 0)"
| "truthy (Str s) = (s \<noteq> [])"
| "truthy (Arr xs) = True"
| "truthy (Obj m) = True"
| "truthy (Backups bs) = True"
| "truthy (ErrorObj m) = True"
| "truthy (Backup b) = True"
| "truthy (Timestamp t) = True"
| "truthy (Builtin n) = True"

text \<open>
  \<^verbatim>\<open>v.k\<close> on any value, for the property names \<^verbatim>\<open>project_id\<close> and \<^verbatim>\<open>id\<close> that the store
  reads from a fetched value: reading a property of \<^verbatim>\<open>undefined\<close> or \<^verbatim>\<open>null\<close> throws a
  \<^verbatim>\<open>TypeError\<close>; a backup has an \<^verbatim>\<open>id\<close>; primitives, arrays, errors and the engine's
  functions have no property of these names.
\<close>

fun get_prop :: "'t val \<Rightarrow> string \<Rightarrow> 't val + 't val" where
  "get_prop Undefined k = Inl (ErrorObj ''TypeError: cannot read properties of undefined'')"
| "get_prop Null k = Inl (ErrorObj ''TypeError: cannot read properties of null'')"
| "get_prop (Obj m) k = Inr (get m k)"
| "get_prop (Backup b) k =
     Inr (if k = ''id'' then Str (backup_id b)
          else if k = ''name'' then Str (backup_name b)
          else if k = ''created_at'' then Timestamp (created_at b)
          else Undefined)"
| "get_prop v k = Inr Undefined"

text \<open>\<^verbatim>\<open>error instanceof Error\<close>.\<close>

fun instanceof_Error :: "'t val \<Rightarrow> bool" where
  "instanceof_Error (ErrorObj m) = True"
| "instanceof_Error v = False"

subsection \<open>Reading the cache object and spreading a value\<close>

text \<open>
  The names of the members that a plain object inherits from \<^verbatim>\<open>Object.prototype\<close>. All of
  them are functions, writable and not enumerable. \<^verbatim>\<open>__proto__\<close> is inherited too; it is an
  accessor and is treated apart.
\<close>

definition object_prototype_members :: "string list" where
  "object_prototype_members =
     [''constructor'', ''hasOwnProperty'', ''isPrototypeOf'', ''propertyIsEnumerable'',
      ''toLocaleString'', ''toString'', ''valueOf'', ''__defineGetter__'',
      ''__defineSetter__'', ''__lookupGetter__'', ''__lookupSetter__'']"

text \<open>What a plain object with no own property \<open>k\<close> gives for \<^verbatim>\<open>o[k]\<close>: its prototype for
  \<^verbatim>\<open>__proto__\<close>, the member for the name of a member, \<^verbatim>\<open>undefined\<close> otherwise.\<close>

definition inherited :: "string \<Rightarrow> 't val" where
  "inherited k =
     (if k = ''__proto__'' then Builtin ''Object.prototype''
      else if k \<in> set object_prototype_members then Builtin k
      else Undefined)"

text \<open>
  \<^verbatim>\<open>this.serverData[serverId]\<close> and \<^verbatim>\<open>state.serverData[serverId]\<close>: the own property if there
  is one (for \<^verbatim>\<open>__proto__\<close>, the record that was made the prototype); otherwise the property
  of the record that was made the prototype, if it has one of this name; otherwise what
  \<^verbatim>\<open>Object.prototype\<close> gives.
\<close>

definition lookup :: "(string \<Rightarrow> 't object option) \<Rightarrow> string \<Rightarrow> 't val" where
  "lookup cache k =
     (case cache k of
        Some entry \<Rightarrow> Obj entry
      | None \<Rightarrow>
          (case cache ''__proto__'' of
             None \<Rightarrow> inherited k
           | Some proto \<Rightarrow> (case proto k of Some v \<Rightarrow> v | None \<Rightarrow> inherited k)))"

text \<open>The decimal numeral of an array index, as a property name.\<close>

fun decimal :: "nat \<Rightarrow> string" where
  "decimal n =
     (if n < 10 then [''0123456789'' ! n]
      else decimal (n div 10) @ [''0123456789'' ! (n mod 10)])"

text \<open>The own enumerable properties of an array or a string: the elements under their
  indices (\<^verbatim>\<open>length\<close> is not enumerable).\<close>

definition indexed :: "'t val list \<Rightarrow> 't object" where
  "indexed xs = map_of (zip (map decimal [0 ..< length xs]) xs)"

text \<open>
  The spread \<^verbatim>\<open>{...v}\<close>: the own enumerable properties of \<open>v\<close>. An object gives its fields, an
  array its elements, a string its characters; numbers, booleans, \<^verbatim>\<open>undefined\<close>, \<^verbatim>\<open>null\<close>,
  functions, \<^verbatim>\<open>Object.prototype\<close> and (in V8) errors give nothing. A timestamp on its own
  is taken to give nothing (a number, a date).
\<close>

fun spread :: "'t val \<Rightarrow> 't object" where
  "spread (Obj m) = m"
| "spread (Arr xs) = indexed xs"
| "spread (Str s) = indexed (map (\<lambda>c. Str [c]) s)"
| "spread (Backups bs) = indexed (map Backup bs)"
| "spread (Backup b) =
     [''id'' \<mapsto> Str (backup_id b), ''name'' \<mapsto> Str (backup_name b),
      ''created_at'' \<mapsto> Timestamp (created_at b)]"
| "spread v = Map.empty"

subsection \<open>The sort of an array\<close>

text \<open>
  \<^verbatim>\<open>Array.prototype.sort(comparefn)\<close> belongs to the JavaScript engine. It is modelled as
  an insertion sort: the elements are taken in input order, and each one is put into the
  sorted prefix in front of the first element \<open>y\<close> with \<^verbatim>\<open>comparefn(x, y) < 0\<close>. This is
  the test that the binary insertion of V8 makes (the later element is the first argument,
  and it overtakes only on a negative answer), and the result is the one of any stable
  sort that decides by \<^verbatim>\<open>comparefn(later, earlier) < 0\<close>.
\<close>

fun sort_insert :: "('a \<Rightarrow> 'a \<Rightarrow> int) \<Rightarrow> 'a \<Rightarrow> 'a list \<Rightarrow> 'a list" where
  "sort_insert comparefn x [] = [x]"
| "sort_insert comparefn x (y # ys) =
     (if comparefn x y < 0 then x # y # ys else y # sort_insert comparefn x ys)"

definition js_sort :: "('a \<Rightarrow> 'a \<Rightarrow> int) \<Rightarrow> 'a list \<Rightarrow> 'a list" where
  "js_sort comparefn xs = foldl (\<lambda>prefix x. sort_insert comparefn x prefix) [] xs"

text \<open>The comparator of \<^verbatim>\<open>fetchServerBackups\<close>:
  \<^verbatim>\<open>(a, b) => (a.created_at > b.created_at ? -1 : 1)\<close>. It never answers 0.\<close>

definition compare_created_at :: "('t::linorder) ServerBackup \<Rightarrow> 't ServerBackup \<Rightarrow> int" where
  "compare_created_at a b = (if created_at a > created_at b then - 1 else 1)"

text \<open>Most recent first.\<close>

abbreviation (input) newest_first :: "('t::linorder) ServerBackup list \<Rightarrow> bool" where
  "newest_first \<equiv> sorted_wrt (\<lambda>a b. created_at b \<le> created_at a)"

subsection \<open>The store state, the backend and the result of an action\<close>

record 't ServerState =
  serverData :: "string \<Rightarrow> 't object option"
  error :: "'t val"

text \<open>The initial state: \<^verbatim>\<open>serverData: {}\<close>, \<^verbatim>\<open>error: null\<close>.\<close>

definition initial_state :: "'t ServerState" where
  "initial_state = \<lparr>serverData = Map.empty, error = Null\<rparr>"

text \<open>The options object of \<^verbatim>\<open>usePyroFetch\<close>; a property left out is \<open>None\<close>.\<close>

record 't pyro_opts =
  session :: "string option"
  http_method :: "string option"
  body :: "'t val option"

text \<open>
  A path is a template literal, kept as the list of its pieces (the literal text and the
  interpolated values), since the store interpolates values it has fetched and the
  string conversion of the engine is not its concern.
\<close>

type_synonym 't path = "'t val list"

text \<open>
  The two fetch helpers. \<^verbatim>\<open>usePyroFetch\<close> is generic in the type of its result; the store
  calls it at \<^verbatim>\<open>Server\<close>, at \<^verbatim>\<open>ServerBackup[]\<close> and without a type, and the model has one
  field for each of these uses. The second argument is \<open>None\<close> where the call passes no
  options.
\<close>

record 't backend =
  usePyroFetch :: "'t path \<Rightarrow> 't pyro_opts option \<Rightarrow> 't val + 't val"
  usePyroFetch_Server :: "'t path \<Rightarrow> 't pyro_opts option \<Rightarrow> 't val + 't object"
  usePyroFetch_Backups :: "'t path \<Rightarrow> 't pyro_opts option \<Rightarrow> 't val + 't ServerBackup list"
  useFetch :: "'t path \<Rightarrow> 't val + 't val"

datatype 't log = ConsoleError string "'t val" | ConsoleWarn string

record ('t, 'a) result =
  outcome :: "'t val + 'a"
  store :: "'t ServerState"
  console :: "'t log list"

text \<open>The three ways an action ends: it returns, it throws, or it logs and throws
  (\<^verbatim>\<open>catch (error) { console.error(msg, error); throw error }\<close>).\<close>

definition returns :: "'a \<Rightarrow> 't ServerState \<Rightarrow> ('t, 'a) result" where
  "returns v st = \<lparr>outcome = Inr v, store = st, console = []\<rparr>"

definition log_and_throw :: "string \<Rightarrow> 't val \<Rightarrow> 't ServerState \<Rightarrow> ('t, 'a) result" where
  "log_and_throw msg e st = \<lparr>outcome = Inl e, store = st, console = [ConsoleError msg e]\<rparr>"

subsection \<open>Getters\<close>

text \<open>\<^verbatim>\<open>getServerData\<close> returns \<^verbatim>\<open>state.serverData[serverId]\<close>; absent is \<open>Undefined\<close>.\<close>

definition getServerData :: "'t ServerState \<Rightarrow> string \<Rightarrow> 't val" where
  "getServerData state serverId = lookup (serverData state) serverId"

definition hasError :: "'t ServerState \<Rightarrow> bool" where
  "hasError state = (error state \<noteq> Null)"

subsection \<open>Sequencing\<close>

text \<open>An awaited helper call that has settled, seen as a result: the store is untouched
  and nothing is logged.\<close>

definition settled :: "'t val + 'a \<Rightarrow> 't ServerState \<Rightarrow> ('t, 'a) result" where
  "settled response st = \<lparr>outcome = response, store = st, console = []\<rparr>"

text \<open>\<^verbatim>\<open>const v = await first; rest\<close>: when \<open>first\<close> throws, the rest is skipped and the
  thrown value travels on; otherwise the rest runs on the store \<open>first\<close> left, and the
  console lines follow each other.\<close>

definition await_then ::
  "('t, 'a) result \<Rightarrow> ('a \<Rightarrow> 't ServerState \<Rightarrow> ('t, 'b) result) \<Rightarrow> ('t, 'b) result" where
  "await_then first rest =
     (case outcome first of
        Inl e \<Rightarrow> \<lparr>outcome = Inl e, store = store first, console = console first\<rparr>
      | Inr v \<Rightarrow>
          (let r = rest v (store first)
           in \<lparr>outcome = outcome r, store = store r, console = console first @ console r\<rparr>))"

text \<open>\<^verbatim>\<open>try { return await call } catch (error) { console.error(msg, error); throw error }\<close>\<close>

definition try_return :: "string \<Rightarrow> 't val + 't val \<Rightarrow> 't ServerState \<Rightarrow> ('t, 't val) result" where
  "try_return msg response st =
     (case response of Inr v \<Rightarrow> returns v st | Inl e \<Rightarrow> log_and_throw msg e st)"

text \<open>\<^verbatim>\<open>try { await call } catch (error) { console.error(msg, error); throw error }\<close>: the
  value of the call is dropped and the action returns \<^verbatim>\<open>undefined\<close>.\<close>

definition try_await :: "string \<Rightarrow> 't val + 't val \<Rightarrow> 't ServerState \<Rightarrow> ('t, 't val) result" where
  "try_await msg response st =
     (case response of Inr v \<Rightarrow> returns Undefined st | Inl e \<Rightarrow> log_and_throw msg e st)"

text \<open>Options objects: \<^verbatim>\<open>{ session: auth }\<close>, \<^verbatim>\<open>{ method: m }\<close> and
  \<^verbatim>\<open>{ method: m, body: b }\<close>.\<close>

definition with_session :: "string \<Rightarrow> 't pyro_opts option" where
  "with_session auth = Some \<lparr>session = Some auth, http_method = None, body = None\<rparr>"

definition with_method :: "string \<Rightarrow> 't pyro_opts option" where
  "with_method m = Some \<lparr>session = None, http_method = Some m, body = None\<rparr>"

definition with_body :: "string \<Rightarrow> 't val \<Rightarrow> 't pyro_opts option" where
  "with_body m b = Some \<lparr>session = None, http_method = Some m, body = Some b\<rparr>"

subsection \<open>Actions\<close>

definition fetchModpackVersion :: "'t backend \<Rightarrow> 't val \<Rightarrow> 't ServerState \<Rightarrow> ('t, 't val) result" where
  "fetchModpackVersion env modpackId st =
     try_return ''Error fetching modpack version:'' (useFetch env [Str ''version/'', modpackId]) st"

definition fetchProject :: "'t backend \<Rightarrow> 't val \<Rightarrow> 't ServerState \<Rightarrow> ('t, 't val) result" where
  "fetchProject env projectId st =
     try_return ''Error fetching project:'' (useFetch env [Str ''project/'', projectId]) st"

definition fetchServerBackups ::
  "('t::linorder) backend \<Rightarrow> string \<Rightarrow> string \<Rightarrow> 't ServerState \<Rightarrow> ('t, 't val) result" where
  "fetchServerBackups env auth serverId st =
     (case usePyroFetch_Backups env [Str ''servers/'', Str serverId, Str ''/backups'']
             (with_session auth) of
        Inr result \<Rightarrow> returns (Backups (js_sort compare_created_at result)) st
      | Inl e \<Rightarrow> log_and_throw ''Error fetching server backups:'' e st)"

text \<open>The block \<^verbatim>\<open>if (data.modpack) { ... }\<close> of \<^verbatim>\<open>fetchServerData\<close>: it gives the record
  with \<^verbatim>\<open>modpack_id\<close> and \<^verbatim>\<open>project\<close> set, or the record as it is when \<^verbatim>\<open>data.modpack\<close> is
  falsy.\<close>

definition attach_modpack ::
  "'t backend \<Rightarrow> 't object \<Rightarrow> 't ServerState \<Rightarrow> ('t, 't object) result" where
  "attach_modpack env data st =
     (if truthy (get data ''modpack'') then
        await_then (fetchModpackVersion env (get data ''modpack'') st) (\<lambda>pid st.
        await_then (settled (get_prop pid ''project_id'') st) (\<lambda>project_id st.
        await_then (fetchProject env project_id st) (\<lambda>project st.
        await_then (settled (get_prop pid ''id'') st) (\<lambda>pid_id st.
        returns (data(''modpack_id'' \<mapsto> pid_id, ''project'' \<mapsto> project)) st))))
      else returns data st)"

text \<open>The \<^verbatim>\<open>try\<close> block of \<^verbatim>\<open>fetchServerData\<close>.\<close>

definition fetchServerData_try ::
  "('t::linorder) backend \<Rightarrow> string \<Rightarrow> string \<Rightarrow> 't ServerState \<Rightarrow> ('t, 't val) result" where
  "fetchServerData_try env auth serverId st =
     await_then (settled (usePyroFetch_Server env [Str ''servers/'', Str serverId]
                            (with_session auth)) st) (\<lambda>data st.
     await_then (attach_modpack env data st) (\<lambda>data st.
     await_then (fetchServerBackups env auth serverId st) (\<lambda>backups st.
     returns Undefined
       (st\<lparr>serverData := (serverData st)(serverId \<mapsto> data(''backups'' \<mapsto> backups)),
           error := Null\<rparr>))))"

text \<open>The value the \<^verbatim>\<open>catch\<close> block of \<^verbatim>\<open>fetchServerData\<close> stores and throws:
  \<^verbatim>\<open>error instanceof Error ? error : new Error('An unknown error occurred')\<close>.\<close>

definition as_Error :: "'t val \<Rightarrow> 't val" where
  "as_Error e = (if instanceof_Error e then e else ErrorObj ''An unknown error occurred'')"

definition fetchServerData ::
  "('t::linorder) backend \<Rightarrow> string \<Rightarrow> string \<Rightarrow> 't ServerState \<Rightarrow> ('t, 't val) result" where
  "fetchServerData env auth serverId st =
     (let r = fetchServerData_try env auth serverId st
      in case outcome r of
           Inr v \<Rightarrow> r
         | Inl e \<Rightarrow>
             \<lparr>outcome = Inl (as_Error e),
              store = (store r)\<lparr>error := as_Error e\<rparr>,
              console = console r @ [ConsoleError ''(PYROFETCH) Error fetching server data:'' e]\<rparr>)"

definition listServers :: "'t backend \<Rightarrow> string \<Rightarrow> 't ServerState \<Rightarrow> ('t, 't val) result" where
  "listServers env auth st =
     (case usePyroFetch env [Str ''servers''] (with_session auth) of
        Inr v \<Rightarrow> returns v st
      | Inl e \<Rightarrow>
          \<lparr>outcome = Inl (error st), store = st,
           console = [ConsoleError ''Error listing servers:'' e]\<rparr>)"

definition updateServerData :: "string \<Rightarrow> 't object \<Rightarrow> 't ServerState \<Rightarrow> ('t, 't val) result" where
  "updateServerData serverId data st =
     (if \<not> truthy (lookup (serverData st) serverId) then
        \<lparr>outcome = Inr Undefined, store = st,
         console = [ConsoleWarn
           (''Attempting to update non-existent server data for server ID: '' @ serverId)]\<rparr>
      else
        returns Undefined
          (st\<lparr>serverData := (serverData st)(serverId \<mapsto>
                spread (lookup (serverData st) serverId) ++ data)\<rparr>))"

definition requestWebsocket :: "'t backend \<Rightarrow> string \<Rightarrow> 't ServerState \<Rightarrow> ('t, 't val) result" where
  "requestWebsocket env serverId st =
     try_return ''Error requesting websocket:''
       (usePyroFetch env [Str ''servers/'', Str serverId, Str ''/ws''] None) st"

definition sendPowerAction ::
  "'t backend \<Rightarrow> string \<Rightarrow> string \<Rightarrow> 't ServerState \<Rightarrow> ('t, 't val) result" where
  "sendPowerAction env serverId action st =
     try_await ''Error changing power state:''
       (usePyroFetch env [Str ''servers/'', Str serverId, Str ''/power'']
          (with_body ''POST'' (Obj [''action'' \<mapsto> Str action]))) st"

definition updateServerName ::
  "'t backend \<Rightarrow> string \<Rightarrow> string \<Rightarrow> 't ServerState \<Rightarrow> ('t, 't val) result" where
  "updateServerName env serverId newName st =
     (case usePyroFetch env [Str ''servers/'', Str serverId, Str ''/name'']
             (with_body ''POST'' (Obj [''name'' \<mapsto> Str newName])) of
        Inr v \<Rightarrow>
          (if truthy (lookup (serverData st) serverId) then
             returns Undefined
               (st\<lparr>serverData := (serverData st)(serverId \<mapsto>
                     (spread (lookup (serverData st) serverId))(''name'' \<mapsto> Str newName))\<rparr>)
           else
             \<lparr>outcome = Inr Undefined, store = st,
              console = [ConsoleWarn
                (''Attempting to update name for non-existent server data. Server ID: ''
                   @ serverId)]\<rparr>)
      | Inl e \<Rightarrow> log_and_throw ''Error updating server name:'' e st)"

definition createBackup ::
  "'t backend \<Rightarrow> string \<Rightarrow> string \<Rightarrow> 't ServerState \<Rightarrow> ('t, 't val) result" where
  "createBackup env serverId backupName st =
     try_await ''Error creating backup:''
       (usePyroFetch env [Str ''servers/'', Str serverId, Str ''/backups'']
          (with_body ''POST'' (Obj [''name'' \<mapsto> Str backupName]))) st"

definition renameBackup ::
  "'t backend \<Rightarrow> string \<Rightarrow> string \<Rightarrow> string \<Rightarrow> 't ServerState \<Rightarrow> ('t, 't val) result" where
  "renameBackup env serverId backupId newName st =
     try_await ''Error renaming backup:''
       (usePyroFetch env
          [Str ''servers/'', Str serverId, Str ''/backups/'', Str backupId, Str ''/rename'']
          (with_body ''POST'' (Obj [''name'' \<mapsto> Str newName]))) st"

definition deleteBackup ::
  "'t backend \<Rightarrow> string \<Rightarrow> string \<Rightarrow> 't ServerState \<Rightarrow> ('t, 't val) result" where
  "deleteBackup env serverId backupId st =
     try_await ''Error deleting backup:''
       (usePyroFetch env [Str ''servers/'', Str serverId, Str ''/backups/'', Str backupId]
          (with_method ''DELETE'')) st"

definition restoreBackup ::
  "'t backend \<Rightarrow> string \<Rightarrow> string \<Rightarrow> 't ServerState \<Rightarrow> ('t, 't val) result" where
  "restoreBackup env serverId backupId st =
     try_await ''Error restoring backup:''
       (usePyroFetch env
          [Str ''servers/'', Str serverId, Str ''/backups/'', Str backupId, Str ''/restore'']
          (with_method ''POST'')) st"

definition downloadBackup ::
  "'t backend \<Rightarrow> string \<Rightarrow> string \<Rightarrow> 't ServerState \<Rightarrow> ('t, 't val) result" where
  "downloadBackup env serverId backupId st =
     try_return ''Error downloading backup:''
       (usePyroFetch env [Str ''servers/'', Str serverId, Str ''/backups/'', Str backupId]
          None) st"

definition initiateWorldDownload ::
  "'t backend \<Rightarrow> string \<Rightarrow> 't ServerState \<Rightarrow> ('t, 't val) result" where
  "initiateWorldDownload env serverId st =
     try_await ''Error initiating world download:''
       (usePyroFetch env [Str ''servers/'', Str serverId, Str ''/world''] None) st"

definition getWorldDownloadURL ::
  "'t backend \<Rightarrow> string \<Rightarrow> 't ServerState \<Rightarrow> ('t, 't val) result" where
  "getWorldDownloadURL env serverId st =
     try_return ''Error getting world download URL:''
       (usePyroFetch env [Str ''servers/'', Str serverId, Str ''/download''] None) st"

definition fetchConfigFile ::
  "'t backend \<Rightarrow> string \<Rightarrow> string \<Rightarrow> 't ServerState \<Rightarrow> ('t, 't val) result" where
  "fetchConfigFile env serverId fileName st =
     try_return ''Error fetching config file:''
       (usePyroFetch env [Str ''servers/'', Str serverId, Str ''/config/'', Str fileName]
          None) st"

definition saveConfigFile ::
  "'t backend \<Rightarrow> string \<Rightarrow> string \<Rightarrow> 't val \<Rightarrow> 't ServerState \<Rightarrow> ('t, 't val) result" where
  "saveConfigFile env serverId fileName data st =
     try_await ''Error saving config file:''
       (usePyroFetch env [Str ''servers/'', Str serverId, Str ''/config/'', Str fileName]
          (with_body ''PUT'' data)) st"

definition checkSubdomainAvailability ::
  "'t backend \<Rightarrow> string \<Rightarrow> 't ServerState \<Rightarrow> ('t, 't val) result" where
  "checkSubdomainAvailability env subdomain st =
     try_return ''Error checking subdomain availability:''
       (usePyroFetch env [Str ''subdomains/'', Str subdomain, Str ''/isavailable''] None) st"

definition changeSubdomain ::
  "'t backend \<Rightarrow> string \<Rightarrow> string \<Rightarrow> 't ServerState \<Rightarrow> ('t, 't val) result" where
  "changeSubdomain env serverId subdomain st =
     try_await ''Error changing subdomain:''
       (usePyroFetch env [Str ''servers/'', Str serverId, Str ''/subdomain'']
          (with_body ''POST'' (Obj [''subdomain'' \<mapsto> Str subdomain]))) st"

definition installMod ::
  "'t backend \<Rightarrow> string \<Rightarrow> string \<Rightarrow> string \<Rightarrow> 't ServerState \<Rightarrow> ('t, 't val) result" where
  "installMod env serverId projectId versionId st =
     try_await ''Error installing mod:''
       (usePyroFetch env [Str ''servers/'', Str serverId, Str ''/mods'']
          (with_body ''POST''
             (Obj [''rinth_ids'' \<mapsto>
                Obj [''project_id'' \<mapsto> Str projectId, ''version_id'' \<mapsto> Str versionId]]))) st"

definition removeMod ::
  "'t backend \<Rightarrow> string \<Rightarrow> string \<Rightarrow> 't ServerState \<Rightarrow> ('t, 't val) result" where
  "removeMod env serverId modId st =
     try_await ''Error removing mod:''
       (usePyroFetch env [Str ''servers/'', Str serverId, Str ''/mods/'', Str modId]
          (with_method ''DELETE'')) st"

definition reinstallMod ::
  "'t backend \<Rightarrow> string \<Rightarrow> string \<Rightarrow> string \<Rightarrow> 't ServerState \<Rightarrow> ('t, 't val) result" where
  "reinstallMod env serverId modId versionId st =
     try_await ''Error reinstalling mod:''
       (usePyroFetch env [Str ''servers/'', Str serverId, Str ''/mods/'', Str modId]
          (with_body ''POST'' (Obj [''version_id'' \<mapsto> Str versionId]))) st"

definition reinstallServer ::
  "'t backend \<Rightarrow> string \<Rightarrow> string \<Rightarrow> string \<Rightarrow> 't ServerState \<Rightarrow> ('t, 't val) result" where
  "reinstallServer env serverId projectId versionId st =
     try_await ''Error reinstalling server:''
       (usePyroFetch env [Str ''servers/'', Str serverId, Str ''/reinstall'']
          (with_body ''POST''
             (Obj [''project_id'' \<mapsto> Str projectId, ''version_id'' \<mapsto> Str versionId]))) st"

definition clearError :: "'t ServerState \<Rightarrow> ('t, 't val) result" where
  "clearError st = returns Undefined (st\<lparr>error := Null\<rparr>)"

subsection \<open>Calls of the store, one after the other\<close>

datatype 't action =
    FetchServerData string string
  | ListServers string
  | FetchModpackVersion "'t val"
  | FetchProject "'t val"
  | FetchServerBackups string string
  | UpdateServerData string "string \<Rightarrow> 't val option"
  | RequestWebsocket string
  | SendPowerAction string string
  | UpdateServerName string string
  | CreateBackup string string
  | RenameBackup string string string
  | DeleteBackup string string
  | RestoreBackup string string
  | DownloadBackup string string
  | InitiateWorldDownload string
  | GetWorldDownloadURL string
  | FetchConfigFile string string
  | SaveConfigFile string string "'t val"
  | CheckSubdomainAvailability string
  | ChangeSubdomain string string
  | InstallMod string string string
  | RemoveMod string string
  | ReinstallMod string string string
  | ReinstallServer string string string
  | ClearError

fun run :: "('t::linorder) backend \<Rightarrow> 't action \<Rightarrow> 't ServerState \<Rightarrow> ('t, 't val) result" where
  "run env (FetchServerData auth serverId) = fetchServerData env auth serverId"
| "run env (ListServers auth) = listServers env auth"
| "run env (FetchModpackVersion modpackId) = fetchModpackVersion env modpackId"
| "run env (FetchProject projectId) = fetchProject env projectId"
| "run env (FetchServerBackups auth serverId) = fetchServerBackups env auth serverId"
| "run env (UpdateServerData serverId data) = updateServerData serverId data"
| "run env (RequestWebsocket serverId) = requestWebsocket env serverId"
| "run env (SendPowerAction serverId action) = sendPowerAction env serverId action"
| "run env (UpdateServerName serverId newName) = updateServerName env serverId newName"
| "run env (CreateBackup serverId backupName) = createBackup env serverId backupName"
| "run env (RenameBackup serverId backupId newName) = renameBackup env serverId backupId newName"
| "run env (DeleteBackup serverId backupId) = deleteBackup env serverId backupId"
| "run env (RestoreBackup serverId backupId) = restoreBackup env serverId backupId"
| "run env (DownloadBackup serverId backupId) = downloadBackup env serverId backupId"
| "run env (InitiateWorldDownload serverId) = initiateWorldDownload env serverId"
| "run env (GetWorldDownloadURL serverId) = getWorldDownloadURL env serverId"
| "run env (FetchConfigFile serverId fileName) = fetchConfigFile env serverId fileName"
| "run env (SaveConfigFile serverId fileName data) = saveConfigFile env serverId fileName data"
| "run env (CheckSubdomainAvailability subdomain) = checkSubdomainAvailability env subdomain"
| "run env (ChangeSubdomain serverId subdomain) = changeSubdomain env serverId subdomain"
| "run env (InstallMod serverId projectId versionId) = installMod env serverId projectId versionId"
| "run env (RemoveMod serverId modId) = removeMod env serverId modId"
| "run env (ReinstallMod serverId modId versionId) = reinstallMod env serverId modId versionId"
| "run env (ReinstallServer serverId projectId versionId) =
     reinstallServer env serverId projectId versionId"
| "run env ClearError = clearError"

text \<open>A history of the store: each call meets the backend as it answers at that moment.\<close>

fun run_all :: "(('t::linorder) backend \<times> 't action) list \<Rightarrow> 't ServerState \<Rightarrow> 't ServerState" where
  "run_all [] st = st"
| "run_all ((env, a) # calls) st = run_all calls (store (run env a st))"

text \<open>No call of the history is a \<^verbatim>\<open>fetchServerData\<close> for \<open>s\<close> that succeeds, and none
  assigns to \<^verbatim>\<open>__proto__\<close> (a successful \<^verbatim>\<open>fetchServerData\<close>, an \<^verbatim>\<open>updateServerData\<close> or an
  \<^verbatim>\<open>updateServerName\<close> for that identifier).\<close>

fun never_populated ::
  "string \<Rightarrow> (('t::linorder) backend \<times> 't action) list \<Rightarrow> 't ServerState \<Rightarrow> bool" where
  "never_populated s [] st = True"
| "never_populated s ((env, a) # calls) st =
     ((case a of
         FetchServerData auth serverId \<Rightarrow>
           (serverId \<noteq> s \<and> serverId \<noteq> ''__proto__'') \<or> isl (outcome (run env a st))
       | UpdateServerData serverId data \<Rightarrow> serverId \<noteq> ''__proto__''
       | UpdateServerName serverId newName \<Rightarrow> serverId \<noteq> ''__proto__''
       | _ \<Rightarrow> True) \<and>
      never_populated s calls (store (run env a st)))"

subsection \<open>Example backends and states\<close>

text \<open>Timestamps are numbers here (2024-01-01 is 20240101). The first and the third backup
  have the same timestamp.\<close>

definition example_backups :: "nat ServerBackup list" where
  "example_backups =
     [\<lparr>backup_id = ''b1'', backup_name = ''first'', created_at = 20240101\<rparr>,
      \<lparr>backup_id = ''b2'', backup_name = ''second'', created_at = 20240301\<rparr>,
      \<lparr>backup_id = ''b3'', backup_name = ''third'', created_at = 20240101\<rparr>]"

definition example_server :: "nat object" where
  "example_server = [''name'' \<mapsto> Str ''survival'', ''modpack'' \<mapsto> Str ''mp1'']"

text \<open>A backend that answers every request.\<close>

definition example_backend :: "nat backend" where
  "example_backend =
     \<lparr>usePyroFetch = (\<lambda>p opts. Inr Undefined),
      usePyroFetch_Server = (\<lambda>p opts. Inr example_server),
      usePyroFetch_Backups = (\<lambda>p opts. Inr example_backups),
      useFetch = (\<lambda>p.
        if p = [Str ''version/'', Str ''mp1'']
        then Inr (Obj [''id'' \<mapsto> Str ''v1'', ''project_id'' \<mapsto> Str ''p1''])
        else if p = [Str ''project/'', Str ''p1'']
        then Inr (Obj [''title'' \<mapsto> Str ''Pack''])
        else Inl (ErrorObj ''not found''))\<rparr>"

text \<open>A backend that rejects every request.\<close>

definition failing_backend :: "nat backend" where
  "failing_backend =
     \<lparr>usePyroFetch = (\<lambda>p opts. Inl (ErrorObj ''network down'')),
      usePyroFetch_Server = (\<lambda>p opts. Inl (ErrorObj ''network down'')),
      usePyroFetch_Backups = (\<lambda>p opts. Inl (ErrorObj ''network down'')),
      useFetch = (\<lambda>p. Inl (ErrorObj ''network down''))\<rparr>"

text \<open>A backend whose backup request rejects, with a string instead of an \<^verbatim>\<open>Error\<close>; its
  other answers are those of \<open>example_backend\<close>.\<close>

definition backups_failing_backend :: "nat backend" where
  "backups_failing_backend =
     example_backend\<lparr>usePyroFetch_Backups := (\<lambda>p opts. Inl (Str ''timeout''))\<rparr>"

text \<open>A backend that knows the server \<^verbatim>\<open>srv2\<close> only.\<close>

definition other_backend :: "nat backend" where
  "other_backend =
     \<lparr>usePyroFetch = (\<lambda>p opts. Inr Undefined),
      usePyroFetch_Server = (\<lambda>p opts.
        if p = [Str ''servers/'', Str ''srv2''] then Inr [''name'' \<mapsto> Str ''creative'']
        else Inl (ErrorObj ''not found'')),
      usePyroFetch_Backups = (\<lambda>p opts. Inr []),
      useFetch = (\<lambda>p. Inl (ErrorObj ''not found''))\<rparr>"

text \<open>A store that has \<^verbatim>\<open>srv1\<close> in its cache and an earlier failure in its error slot.\<close>

definition cached_state :: "nat ServerState" where
  "cached_state =
     \<lparr>serverData = [''srv1'' \<mapsto> [''name'' \<mapsto> Str ''old'', ''status'' \<mapsto> Str ''running'']],
      error = ErrorObj ''earlier failure''\<rparr>"

definition example_calls :: "(nat backend \<times> nat action) list" where
  "example_calls =
     [(failing_backend, FetchServerData ''token'' ''srv1''),
      (other_backend, FetchServerData ''token'' ''srv2''),
      (other_backend, UpdateServerData ''srv1'' [''name'' \<mapsto> Str ''X'']),
      (other_backend, UpdateServerName ''srv1'' ''new''),
      (other_backend, ClearError)]"

section \<open>Properties\<close>

subsection \<open>How an action ends\<close>

lemma store_try_return: "store (try_return msg response st) = st"
  by (simp add: try_return_def returns_def log_and_throw_def split: sum.splits)

lemma store_try_await: "store (try_await msg response st) = st"
  by (simp add: try_await_def returns_def log_and_throw_def split: sum.splits)

lemma outcome_try_return: "outcome (try_return msg response st) = response"
  by (simp add: try_return_def returns_def log_and_throw_def split: sum.splits)

lemma outcome_try_await:
  "outcome (try_await msg response st) =
     (case response of Inl e \<Rightarrow> Inl e | Inr v \<Rightarrow> Inr Undefined)"
  by (simp add: try_await_def returns_def log_and_throw_def split: sum.splits)

lemma store_fetchModpackVersion: "store (fetchModpackVersion env m st) = st"
  by (simp add: fetchModpackVersion_def store_try_return)

lemma store_fetchProject: "store (fetchProject env p st) = st"
  by (simp add: fetchProject_def store_try_return)

lemma store_fetchServerBackups: "store (fetchServerBackups env auth serverId st) = st"
  by (simp add: fetchServerBackups_def returns_def log_and_throw_def split: sum.splits)

lemma outcome_fetchServerBackups:
  "outcome (fetchServerBackups env auth serverId st) =
     (case usePyroFetch_Backups env [Str ''servers/'', Str serverId, Str ''/backups'']
             (with_session auth) of
        Inl e \<Rightarrow> Inl e
      | Inr bs \<Rightarrow> Inr (Backups (js_sort compare_created_at bs)))"
  by (simp add: fetchServerBackups_def returns_def log_and_throw_def split: sum.splits)

text \<open>The actions that only forward a request leave the whole store state as it was.\<close>

lemma store_run_other:
  assumes "\<forall>auth serverId. a \<noteq> FetchServerData auth serverId"
    and "\<forall>serverId data. a \<noteq> UpdateServerData serverId data"
    and "\<forall>serverId newName. a \<noteq> UpdateServerName serverId newName"
    and "a \<noteq> ClearError"
  shows "store (run env a st) = st"
  using assms
  by (cases a)
     (simp_all add: listServers_def returns_def fetchModpackVersion_def fetchProject_def
        store_fetchServerBackups requestWebsocket_def sendPowerAction_def createBackup_def
        renameBackup_def deleteBackup_def restoreBackup_def downloadBackup_def
        initiateWorldDownload_def getWorldDownloadURL_def fetchConfigFile_def
        saveConfigFile_def checkSubdomainAvailability_def changeSubdomain_def installMod_def
        removeMod_def reinstallMod_def reinstallServer_def store_try_return store_try_await
        split: sum.splits)

lemma error_updateServerData: "error (store (updateServerData serverId data st)) = error st"
  by (simp add: updateServerData_def returns_def)

lemma error_updateServerName:
  "error (store (updateServerName env serverId newName st)) = error st"
  by (simp add: updateServerName_def returns_def log_and_throw_def split: sum.splits)

lemma error_run_other:
  assumes "\<forall>auth serverId. a \<noteq> FetchServerData auth serverId" and "a \<noteq> ClearError"
  shows "error (store (run env a st)) = error st"
proof (cases "(\<exists>serverId data. a = UpdateServerData serverId data) \<or>
              (\<exists>serverId newName. a = UpdateServerName serverId newName)")
  case True
  then show ?thesis by (auto simp: error_updateServerData error_updateServerName)
next
  case False
  with assms have "store (run env a st) = st" by (intro store_run_other) auto
  then show ?thesis by simp
qed

subsection \<open>The sort\<close>

lemma mset_sort_insert: "mset (sort_insert c x ys) = add_mset x (mset ys)"
  by (induction ys) auto

lemma set_sort_insert: "set (sort_insert c x ys) = insert x (set ys)"
  by (induction ys) auto

lemma sorted_sort_insert:
  "newest_first ys \<Longrightarrow> newest_first (sort_insert compare_created_at x ys)"
  by (induction ys) (auto simp: set_sort_insert compare_created_at_def)

text \<open>In a list that is newest first, an element goes behind every element of its own
  timestamp.\<close>

lemma filter_sort_insert:
  "newest_first ys \<Longrightarrow>
   filter (\<lambda>b. created_at b = t) (sort_insert compare_created_at x ys) =
   filter (\<lambda>b. created_at b = t) ys @ (if created_at x = t then [x] else [])"
proof (induction ys)
  case Nil
  then show ?case by simp
next
  case (Cons y ys)
  show ?case
  proof (cases "created_at y < created_at x")
    case True
    have "created_at x = t \<Longrightarrow> filter (\<lambda>b. created_at b = t) (y # ys) = []"
      using True Cons.prems by (auto simp: filter_empty_conv)
    with True show ?thesis by (simp add: compare_created_at_def)
  next
    case False
    with Cons show ?thesis by (simp add: compare_created_at_def)
  qed
qed

lemma js_sort_Nil: "js_sort c [] = []"
  by (simp add: js_sort_def)

lemma js_sort_snoc: "js_sort c (xs @ [x]) = sort_insert c x (js_sort c xs)"
  by (simp add: js_sort_def)

lemma mset_js_sort: "mset (js_sort c xs) = mset xs"
  by (induction xs rule: rev_induct) (simp_all add: js_sort_Nil js_sort_snoc mset_sort_insert)

lemma sorted_js_sort: "newest_first (js_sort compare_created_at xs)"
  by (induction xs rule: rev_induct) (simp_all add: js_sort_Nil js_sort_snoc sorted_sort_insert)

lemma stable_js_sort:
  "filter (\<lambda>b. created_at b = t) (js_sort compare_created_at xs) =
   filter (\<lambda>b. created_at b = t) xs"
proof (induction xs rule: rev_induct)
  case Nil
  show ?case by (simp add: js_sort_Nil)
next
  case (snoc x xs)
  then show ?case
    by (simp add: js_sort_snoc filter_sort_insert [OF sorted_js_sort])
qed

subsection \<open>\<^verbatim>\<open>fetchServerData\<close>, step by step\<close>

lemma store_attach_modpack: "store (attach_modpack env data st) = st"
  by (simp add: attach_modpack_def await_then_def Let_def returns_def settled_def
      store_fetchModpackVersion store_fetchProject split: sum.splits)

lemma attach_modpack_Inr:
  assumes "outcome (attach_modpack env data st) = Inr data'"
  shows "if truthy (get data ''modpack'')
         then \<exists>pid project_id project pid_id.
                useFetch env [Str ''version/'', get data ''modpack''] = Inr pid \<and>
                get_prop pid ''project_id'' = Inr project_id \<and>
                useFetch env [Str ''project/'', project_id] = Inr project \<and>
                get_prop pid ''id'' = Inr pid_id \<and>
                data' = data(''modpack_id'' \<mapsto> pid_id, ''project'' \<mapsto> project)
         else data' = data"
  using assms
  by (auto simp: attach_modpack_def await_then_def Let_def returns_def settled_def
      fetchModpackVersion_def fetchProject_def outcome_try_return store_try_return
      split: sum.splits if_splits)

text \<open>The modpack block fails exactly when the record references a modpack and the version
  request, the read of \<^verbatim>\<open>pid.project_id\<close> or the project request fails.\<close>

lemma attach_modpack_Inl:
  "outcome (attach_modpack env data st) = Inl c \<longleftrightarrow>
     truthy (get data ''modpack'') \<and>
     (useFetch env [Str ''version/'', get data ''modpack''] = Inl c \<or>
      (\<exists>pid. useFetch env [Str ''version/'', get data ''modpack''] = Inr pid \<and>
         (get_prop pid ''project_id'' = Inl c \<or>
          (\<exists>project_id. get_prop pid ''project_id'' = Inr project_id \<and>
             useFetch env [Str ''project/'', project_id] = Inl c))))"
proof (cases "truthy (get data ''modpack'')")
  case False
  then show ?thesis by (simp add: attach_modpack_def returns_def)
next
  case True
  show ?thesis
  proof (cases "useFetch env [Str ''version/'', get data ''modpack'']")
    case (Inl e)
    with True show ?thesis
      by (simp add: attach_modpack_def await_then_def fetchModpackVersion_def
          outcome_try_return)
  next
    case (Inr pid)
    have id_ok: "get_prop pid ''project_id'' = Inr project_id \<Longrightarrow>
                 \<exists>pid_id. get_prop pid ''id'' = Inr pid_id" for project_id
      by (cases pid) simp_all
    show ?thesis
    proof (cases "get_prop pid ''project_id''")
      case (Inl e)
      with True Inr show ?thesis
        by (simp add: attach_modpack_def await_then_def Let_def settled_def
            fetchModpackVersion_def outcome_try_return store_try_return)
    next
      case project_id: (Inr project_id)
      from id_ok [OF project_id] obtain pid_id where "get_prop pid ''id'' = Inr pid_id" ..
      with True Inr project_id show ?thesis
        by (cases "useFetch env [Str ''project/'', project_id]")
           (simp_all add: attach_modpack_def await_then_def Let_def settled_def returns_def
              fetchModpackVersion_def fetchProject_def outcome_try_return store_try_return)
    qed
  qed
qed

lemma fetchServerData_try_cases:
  "(case usePyroFetch_Server env [Str ''servers/'', Str serverId] (with_session auth) of
      Inl c \<Rightarrow> outcome (fetchServerData_try env auth serverId st) = Inl c \<and>
               store (fetchServerData_try env auth serverId st) = st
    | Inr data \<Rightarrow>
       (case outcome (attach_modpack env data st) of
          Inl c \<Rightarrow> outcome (fetchServerData_try env auth serverId st) = Inl c \<and>
                   store (fetchServerData_try env auth serverId st) = st
        | Inr data' \<Rightarrow>
           (case usePyroFetch_Backups env [Str ''servers/'', Str serverId, Str ''/backups'']
                   (with_session auth) of
              Inl c \<Rightarrow> outcome (fetchServerData_try env auth serverId st) = Inl c \<and>
                       store (fetchServerData_try env auth serverId st) = st
            | Inr bs \<Rightarrow>
                outcome (fetchServerData_try env auth serverId st) = Inr Undefined \<and>
                store (fetchServerData_try env auth serverId st) =
                  st\<lparr>serverData := (serverData st)(serverId \<mapsto>
                        data'(''backups'' \<mapsto> Backups (js_sort compare_created_at bs))),
                     error := Null\<rparr>)))"
  by (simp add: fetchServerData_try_def await_then_def Let_def settled_def returns_def
      store_attach_modpack store_fetchServerBackups outcome_fetchServerBackups
      split: sum.splits)

lemma fetchServerData_cases:
  "(case outcome (fetchServerData_try env auth serverId st) of
      Inl c \<Rightarrow> outcome (fetchServerData env auth serverId st) = Inl (as_Error c) \<and>
               store (fetchServerData env auth serverId st) =
                 (store (fetchServerData_try env auth serverId st))\<lparr>error := as_Error c\<rparr>
    | Inr v \<Rightarrow> outcome (fetchServerData env auth serverId st) = Inr v \<and>
               store (fetchServerData env auth serverId st) =
                 store (fetchServerData_try env auth serverId st))"
  by (simp add: fetchServerData_def Let_def split: sum.splits)

lemma as_Error_not_Null: "as_Error c \<noteq> Null" "instanceof_Error (as_Error c)"
  by (cases c; simp add: as_Error_def)+

lemma fetchServerData_outcome_store:
  "(case outcome (fetchServerData env auth serverId st) of
      Inl e \<Rightarrow> store (fetchServerData env auth serverId st) = st\<lparr>error := e\<rparr> \<and>
               e \<noteq> Null \<and> instanceof_Error e
    | Inr v \<Rightarrow> error (store (fetchServerData env auth serverId st)) = Null \<and>
               (\<forall>s. s \<noteq> serverId \<longrightarrow>
                  serverData (store (fetchServerData env auth serverId st)) s = serverData st s))"
  using fetchServerData_cases [of env auth serverId st]
    fetchServerData_try_cases [where env=env and auth=auth and serverId=serverId and st=st]
  by (auto split: sum.splits simp: as_Error_not_Null)

subsection \<open>Reading the cache\<close>

lemma lookup_own: "cache k = Some entry \<Longrightarrow> lookup cache k = Obj entry"
  by (simp add: lookup_def)

text \<open>An identifier is plain when it names nothing that \<^verbatim>\<open>Object.prototype\<close> provides. On a
  cache whose prototype was never replaced, a plain identifier without an entry reads as
  \<^verbatim>\<open>undefined\<close>.\<close>

lemma lookup_plain:
  assumes "cache k = None" and "cache ''__proto__'' = None"
    and "k \<notin> set object_prototype_members" and "k \<noteq> ''__proto__''"
  shows "lookup cache k = Undefined"
  using assms by (simp add: lookup_def inherited_def)

lemma lookup_member:
  assumes "cache k = None" and "cache ''__proto__'' = None"
    and "k \<in> set object_prototype_members"
  shows "lookup cache k = Builtin k"
  using assms by (auto simp: lookup_def inherited_def object_prototype_members_def)

subsection \<open>The two merging actions\<close>

text \<open>On a cached identifier, whatever its name, \<^verbatim>\<open>updateServerData\<close> merges the partial
  record into the entry and touches nothing else.\<close>

lemma updateServerData_cached:
  assumes "serverData st serverId = Some old"
  shows "updateServerData serverId data st =
           returns Undefined (st\<lparr>serverData := (serverData st)(serverId \<mapsto> old ++ data)\<rparr>)"
  using assms by (simp add: updateServerData_def lookup_own)

text \<open>When \<^verbatim>\<open>this.serverData[serverId]\<close> is falsy, \<^verbatim>\<open>updateServerData\<close> warns and leaves the
  store as it was.\<close>

lemma updateServerData_falsy:
  assumes "\<not> truthy (lookup (serverData st) serverId)"
  shows "store (updateServerData serverId data st) = st \<and>
         outcome (updateServerData serverId data st) = Inr Undefined \<and>
         console (updateServerData serverId data st) =
           [ConsoleWarn
              (''Attempting to update non-existent server data for server ID: '' @ serverId)]"
  using assms by (simp add: updateServerData_def)

lemma updateServerName_cached:
  assumes "usePyroFetch env [Str ''servers/'', Str serverId, Str ''/name'']
             (with_body ''POST'' (Obj [''name'' \<mapsto> Str newName])) = Inr v"
    and "serverData st serverId = Some old"
  shows "updateServerName env serverId newName st =
           returns Undefined
             (st\<lparr>serverData := (serverData st)(serverId \<mapsto> old(''name'' \<mapsto> Str newName))\<rparr>)"
  using assms by (simp add: updateServerName_def lookup_own)

lemma updateServerName_falsy:
  assumes "usePyroFetch env [Str ''servers/'', Str serverId, Str ''/name'']
             (with_body ''POST'' (Obj [''name'' \<mapsto> Str newName])) = Inr v"
    and "\<not> truthy (lookup (serverData st) serverId)"
  shows "store (updateServerName env serverId newName st) = st \<and>
         outcome (updateServerName env serverId newName st) = Inr Undefined \<and>
         console (updateServerName env serverId newName st) =
           [ConsoleWarn
              (''Attempting to update name for non-existent server data. Server ID: ''
                 @ serverId)]"
  using assms by (simp add: updateServerName_def)

text \<open>Both actions write at most the entry of their own identifier.\<close>

lemma updateServerData_others:
  "s \<noteq> serverId \<Longrightarrow>
   serverData (store (updateServerData serverId data st)) s = serverData st s"
  by (simp add: updateServerData_def returns_def)

lemma updateServerName_others:
  "s \<noteq> serverId \<Longrightarrow>
   serverData (store (updateServerName env serverId newName st)) s = serverData st s"
  by (simp add: updateServerName_def returns_def log_and_throw_def split: sum.splits)

subsection \<open>Histories\<close>

text \<open>A plain identifier that has no entry, on a cache with its first prototype, has no
  entry after a call that neither fetches it with success nor assigns to \<^verbatim>\<open>__proto__\<close>.\<close>

lemma uncached_step:
  assumes "serverData st s = None" and "serverData st ''__proto__'' = None"
    and "s \<notin> set object_prototype_members"
    and "case a of
           FetchServerData auth serverId \<Rightarrow>
             (serverId \<noteq> s \<and> serverId \<noteq> ''__proto__'') \<or> isl (outcome (run env a st))
         | UpdateServerData serverId data \<Rightarrow> serverId \<noteq> ''__proto__''
         | UpdateServerName serverId newName \<Rightarrow> serverId \<noteq> ''__proto__''
         | _ \<Rightarrow> True"
  shows "serverData (store (run env a st)) s = None \<and>
         serverData (store (run env a st)) ''__proto__'' = None"
proof (cases a)
  case (FetchServerData auth serverId)
  with assms fetchServerData_outcome_store [of env auth serverId st] show ?thesis
    by (cases "outcome (fetchServerData env auth serverId st)") auto
next
  case (UpdateServerData serverId data)
  show ?thesis
  proof (cases "serverId = s")
    case True
    with assms UpdateServerData have "lookup (serverData st) serverId = Undefined"
      by (cases "s = ''__proto__''") (simp_all add: lookup_plain)
    with assms UpdateServerData True show ?thesis
      by (simp add: updateServerData_falsy)
  next
    case False
    with assms UpdateServerData show ?thesis
      by (simp add: updateServerData_others)
  qed
next
  case (UpdateServerName serverId newName)
  show ?thesis
  proof (cases "serverId = s")
    case True
    with assms UpdateServerName have u: "lookup (serverData st) serverId = Undefined"
      by (cases "s = ''__proto__''") (simp_all add: lookup_plain)
    with assms UpdateServerName True show ?thesis
      by (simp add: updateServerName_def log_and_throw_def split: sum.splits)
  next
    case False
    with assms UpdateServerName show ?thesis
      by (simp add: updateServerName_others)
  qed
next
  case ClearError
  with assms show ?thesis by (simp add: clearError_def returns_def)
qed (use assms store_run_other [of a env st] in auto)

lemma never_populated_uncached:
  "serverData st s = None \<Longrightarrow> serverData st ''__proto__'' = None \<Longrightarrow>
   s \<notin> set object_prototype_members \<Longrightarrow> never_populated s calls st \<Longrightarrow>
   serverData (run_all calls st) s = None \<and> serverData (run_all calls st) ''__proto__'' = None"
proof (induction calls arbitrary: st)
  case Nil
  then show ?case by simp
next
  case (Cons c calls)
  obtain env a where c: "c = (env, a)" by (cases c)
  from Cons.prems have "serverData (store (run env a st)) s = None \<and>
      serverData (store (run env a st)) ''__proto__'' = None"
    unfolding c by (intro uncached_step) simp_all
  with Cons.prems Cons.IH [of "store (run env a st)"] show ?case
    unfolding c by simp
qed

text \<open>For a plain identifier \<open>s\<close>, \<^verbatim>\<open>getServerData(s)\<close> is absent on the initial store and after
  every history in which no \<^verbatim>\<open>fetchServerData\<close> for \<open>s\<close> succeeded and nothing was assigned to
  \<^verbatim>\<open>__proto__\<close>.\<close>

lemma getServerData_absent_plain:
  fixes calls :: "(('t::linorder) backend \<times> 't action) list"
  assumes "s \<notin> set object_prototype_members" and "s \<noteq> ''__proto__''"
    and "never_populated s calls initial_state"
  shows "getServerData (run_all calls initial_state) s = Undefined"
proof -
  have "serverData (run_all calls initial_state) s = None \<and>
        serverData (run_all calls initial_state) ''__proto__'' = None"
    using assms by (intro never_populated_uncached) (simp_all add: initial_state_def)
  with assms show ?thesis by (simp add: getServerData_def lookup_plain)
qed

text \<open>A failed fetch of \<^verbatim>\<open>srv1\<close>, a successful fetch of \<^verbatim>\<open>srv2\<close>, then an update and a
  rename of \<^verbatim>\<open>srv1\<close>: \<^verbatim>\<open>srv1\<close> is still absent.\<close>

lemma getServerData_absent_plain_example:
  "never_populated ''srv1'' example_calls initial_state \<and>
   getServerData (run_all example_calls initial_state) ''srv1'' = Undefined"
proof -
  have f: "fetchServerData failing_backend ''token'' ''srv1'' st =
     \<lparr>outcome = Inl (ErrorObj ''network down''),
      store = st\<lparr>error := ErrorObj ''network down''\<rparr>,
      console = [ConsoleError ''(PYROFETCH) Error fetching server data:''
                   (ErrorObj ''network down'')]\<rparr>" for st
    by (simp add: fetchServerData_def fetchServerData_try_def await_then_def settled_def
        Let_def failing_backend_def as_Error_def)
  have h: "never_populated ''srv1'' example_calls initial_state"
    by (simp add: example_calls_def f)
  have p: "''srv1'' \<notin> set object_prototype_members"
    by (simp add: object_prototype_members_def)
  from getServerData_absent_plain [OF p _ h] h show ?thesis by simp
qed

section \<open>The claims\<close>

text \<open>
  C1. Every successful call \<^verbatim>\<open>fetchServerData(auth, serverId)\<close> has fetched the record and
  the backup list, and the cache afterwards is the cache before with the entry of
  \<open>serverId\<close> replaced by an entry that is the fetched record in every field other than
  \<^verbatim>\<open>modpack_id\<close>, \<^verbatim>\<open>project\<close> and \<^verbatim>\<open>backups\<close> (no field of an earlier entry is kept). Its
  \<^verbatim>\<open>backups\<close> are the fetched list, sorted. If the record references a modpack
  (\<^verbatim>\<open>data.modpack\<close> is truthy), the version was resolved from it, then the project from the
  version's \<^verbatim>\<open>project_id\<close>, and the entry carries the version's \<^verbatim>\<open>id\<close> as \<^verbatim>\<open>modpack_id\<close>
  and the project as \<^verbatim>\<open>project\<close>; otherwise these two fields are the fetched record's. The
  error slot is \<^verbatim>\<open>null\<close> and \<^verbatim>\<open>hasError\<close> is false.
\<close>

theorem fetchServerData_success:
  assumes "outcome (fetchServerData env auth serverId st) = Inr v"
  shows "\<exists>data backups entry.
     usePyroFetch_Server env [Str ''servers/'', Str serverId] (with_session auth) = Inr data \<and>
     usePyroFetch_Backups env [Str ''servers/'', Str serverId, Str ''/backups'']
       (with_session auth) = Inr backups \<and>
     serverData (store (fetchServerData env auth serverId st)) =
       (serverData st)(serverId \<mapsto> entry) \<and>
     entry ''backups'' = Some (Backups (js_sort compare_created_at backups)) \<and>
     (truthy (get data ''modpack'') \<longrightarrow>
        (\<exists>pid project_id project pid_id.
            useFetch env [Str ''version/'', get data ''modpack''] = Inr pid \<and>
            get_prop pid ''project_id'' = Inr project_id \<and>
            useFetch env [Str ''project/'', project_id] = Inr project \<and>
            get_prop pid ''id'' = Inr pid_id \<and>
            entry ''modpack_id'' = Some pid_id \<and> entry ''project'' = Some project)) \<and>
     (\<not> truthy (get data ''modpack'') \<longrightarrow>
        entry ''modpack_id'' = data ''modpack_id'' \<and> entry ''project'' = data ''project'') \<and>
     (\<forall>f. f \<notin> {''modpack_id'', ''project'', ''backups''} \<longrightarrow> entry f = data f) \<and>
     error (store (fetchServerData env auth serverId st)) = Null \<and>
     \<not> hasError (store (fetchServerData env auth serverId st))"
proof -
  from assms fetchServerData_cases [of env auth serverId st]
  have ok: "outcome (fetchServerData_try env auth serverId st) = Inr v"
    and st: "store (fetchServerData env auth serverId st) =
             store (fetchServerData_try env auth serverId st)"
    by (auto split: sum.splits)
  from ok fetchServerData_try_cases [where env=env and auth=auth and serverId=serverId and st=st]
  obtain data data' bs where
    d: "usePyroFetch_Server env [Str ''servers/'', Str serverId] (with_session auth) = Inr data"
    and a: "outcome (attach_modpack env data st) = Inr data'"
    and b: "usePyroFetch_Backups env [Str ''servers/'', Str serverId, Str ''/backups'']
              (with_session auth) = Inr bs"
    and s: "store (fetchServerData_try env auth serverId st) =
              st\<lparr>serverData := (serverData st)(serverId \<mapsto>
                    data'(''backups'' \<mapsto> Backups (js_sort compare_created_at bs))),
                 error := Null\<rparr>"
    by (auto split: sum.splits)
  let ?entry = "data'(''backups'' \<mapsto> Backups (js_sort compare_created_at bs))"
  from attach_modpack_Inr [OF a]
  have m: "truthy (get data ''modpack'') \<longrightarrow>
        (\<exists>pid project_id project pid_id.
            useFetch env [Str ''version/'', get data ''modpack''] = Inr pid \<and>
            get_prop pid ''project_id'' = Inr project_id \<and>
            useFetch env [Str ''project/'', project_id] = Inr project \<and>
            get_prop pid ''id'' = Inr pid_id \<and>
            ?entry ''modpack_id'' = Some pid_id \<and> ?entry ''project'' = Some project)"
    by (auto split: if_splits)
  from attach_modpack_Inr [OF a]
  have n: "\<not> truthy (get data ''modpack'') \<longrightarrow>
        ?entry ''modpack_id'' = data ''modpack_id'' \<and> ?entry ''project'' = data ''project''"
    by (auto split: if_splits)
  from attach_modpack_Inr [OF a]
  have r: "\<forall>f. f \<notin> {''modpack_id'', ''project'', ''backups''} \<longrightarrow> ?entry f = data f"
    by (auto split: if_splits)
  have e: "?entry ''backups'' = Some (Backups (js_sort compare_created_at bs))" by simp
  show ?thesis
    apply (rule exI [of _ data], rule exI [of _ bs], rule exI [of _ ?entry])
    using d b m n r e st s by (simp add: hasError_def)
qed

text \<open>On an empty store, a server with a modpack and three backups: the call succeeds and
  the entry has the resolved version and project and the backups newest first.\<close>

theorem fetchServerData_success_witness:
  "outcome (fetchServerData example_backend ''token'' ''srv1'' initial_state) = Inr Undefined \<and>
   getServerData (store (fetchServerData example_backend ''token'' ''srv1'' initial_state))
       ''srv1'' =
     Obj [''name'' \<mapsto> Str ''survival'', ''modpack'' \<mapsto> Str ''mp1'',
           ''modpack_id'' \<mapsto> Str ''v1'', ''project'' \<mapsto> Obj [''title'' \<mapsto> Str ''Pack''],
           ''backups'' \<mapsto> Backups
              [\<lparr>backup_id = ''b2'', backup_name = ''second'', created_at = 20240301\<rparr>,
               \<lparr>backup_id = ''b1'', backup_name = ''first'', created_at = 20240101\<rparr>,
               \<lparr>backup_id = ''b3'', backup_name = ''third'', created_at = 20240101\<rparr>]] \<and>
   \<not> hasError (store (fetchServerData example_backend ''token'' ''srv1'' initial_state))"
proof -
  have h: "outcome (fetchServerData example_backend ''token'' ''srv1'' initial_state) =
           Inr Undefined"
    by (simp add: fetchServerData_def fetchServerData_try_def attach_modpack_def
        fetchServerBackups_def fetchModpackVersion_def fetchProject_def try_return_def
        await_then_def settled_def returns_def Let_def example_backend_def example_server_def
        get_def with_session_def)
  have c: "getServerData (store (fetchServerData example_backend ''token'' ''srv1''
             initial_state)) ''srv1'' =
     Obj [''name'' \<mapsto> Str ''survival'', ''modpack'' \<mapsto> Str ''mp1'',
           ''modpack_id'' \<mapsto> Str ''v1'', ''project'' \<mapsto> Obj [''title'' \<mapsto> Str ''Pack''],
           ''backups'' \<mapsto> Backups
              [\<lparr>backup_id = ''b2'', backup_name = ''second'', created_at = 20240301\<rparr>,
               \<lparr>backup_id = ''b1'', backup_name = ''first'', created_at = 20240101\<rparr>,
               \<lparr>backup_id = ''b3'', backup_name = ''third'', created_at = 20240101\<rparr>]]"
    by (simp add: fetchServerData_def fetchServerData_try_def attach_modpack_def
        fetchServerBackups_def fetchModpackVersion_def fetchProject_def try_return_def
        await_then_def settled_def returns_def Let_def example_backend_def example_server_def
        example_backups_def js_sort_def compare_created_at_def getServerData_def lookup_def
        initial_state_def get_def with_session_def)
  from fetchServerData_success [OF h] h c show ?thesis by auto
qed

text \<open>
  C2. When the server request, the modpack block (the version request, the read of its
  \<^verbatim>\<open>project_id\<close>, the project request) or the backup request of
  \<^verbatim>\<open>fetchServerData(auth, serverId)\<close> fails with \<open>c\<close>: the cache is the one before the call,
  the error slot holds \<^verbatim>\<open>c instanceof Error ? c : new Error('An unknown error occurred')\<close>,
  which is not \<^verbatim>\<open>null\<close>, so \<^verbatim>\<open>hasError\<close> is true, and the call throws the value it has
  stored; that value is \<open>c\<close> itself when \<open>c\<close> is an \<^verbatim>\<open>Error\<close>.
\<close>

theorem fetchServerData_failure:
  assumes "usePyroFetch_Server env [Str ''servers/'', Str serverId] (with_session auth) = Inl c \<or>
    (\<exists>data.
        usePyroFetch_Server env [Str ''servers/'', Str serverId] (with_session auth) = Inr data \<and>
        outcome (attach_modpack env data st) = Inl c) \<or>
    (\<exists>data data'.
        usePyroFetch_Server env [Str ''servers/'', Str serverId] (with_session auth) = Inr data \<and>
        outcome (attach_modpack env data st) = Inr data' \<and>
        usePyroFetch_Backups env [Str ''servers/'', Str serverId, Str ''/backups'']
          (with_session auth) = Inl c)"
  shows "serverData (store (fetchServerData env auth serverId st)) = serverData st \<and>
         error (store (fetchServerData env auth serverId st)) = as_Error c \<and>
         hasError (store (fetchServerData env auth serverId st)) \<and>
         outcome (fetchServerData env auth serverId st) = Inl (as_Error c) \<and>
         (instanceof_Error c \<longrightarrow> as_Error c = c)"
proof -
  have thrown: "outcome (fetchServerData_try env auth serverId st) = Inl c \<and>
                store (fetchServerData_try env auth serverId st) = st"
    using assms
      fetchServerData_try_cases [where env=env and auth=auth and serverId=serverId and st=st]
    by auto
  then show ?thesis
    using fetchServerData_cases [of env auth serverId st]
    by (simp add: hasError_def as_Error_not_Null) (simp add: as_Error_def)
qed

text \<open>The server request fails while \<^verbatim>\<open>srv1\<close> is cached: the entry stays, the error slot
  changes from the earlier failure to this one, and this one is thrown. The backup request
  fails with a string, after the record and its modpack were fetched: the entry stays, and
  the slot and the thrown value are a new \<^verbatim>\<open>Error\<close>.\<close>

theorem fetchServerData_failure_witness:
  "usePyroFetch_Server failing_backend [Str ''servers/'', Str ''srv1''] (with_session ''token'') =
     Inl (ErrorObj ''network down'') \<and>
   serverData (store (fetchServerData failing_backend ''token'' ''srv1'' cached_state)) =
     serverData cached_state \<and>
   error (store (fetchServerData failing_backend ''token'' ''srv1'' cached_state)) =
     ErrorObj ''network down'' \<and>
   hasError (store (fetchServerData failing_backend ''token'' ''srv1'' cached_state)) \<and>
   outcome (fetchServerData failing_backend ''token'' ''srv1'' cached_state) =
     Inl (ErrorObj ''network down'') \<and>
   usePyroFetch_Backups backups_failing_backend
     [Str ''servers/'', Str ''srv1'', Str ''/backups''] (with_session ''token'') =
     Inl (Str ''timeout'') \<and>
   serverData (store (fetchServerData backups_failing_backend ''token'' ''srv1'' cached_state)) =
     serverData cached_state \<and>
   error (store (fetchServerData backups_failing_backend ''token'' ''srv1'' cached_state)) =
     ErrorObj ''An unknown error occurred'' \<and>
   outcome (fetchServerData backups_failing_backend ''token'' ''srv1'' cached_state) =
     Inl (ErrorObj ''An unknown error occurred'')"
proof -
  have h: "usePyroFetch_Server failing_backend [Str ''servers/'', Str ''srv1'']
             (with_session ''token'') = Inl (ErrorObj ''network down'')"
    by (simp add: failing_backend_def)
  have d: "usePyroFetch_Server backups_failing_backend [Str ''servers/'', Str ''srv1'']
             (with_session ''token'') = Inr example_server"
    by (simp add: backups_failing_backend_def example_backend_def)
  have m: "outcome (attach_modpack backups_failing_backend example_server cached_state) =
     Inr (example_server(''modpack_id'' \<mapsto> Str ''v1'',
            ''project'' \<mapsto> Obj [''title'' \<mapsto> Str ''Pack'']))"
    by (simp add: attach_modpack_def fetchModpackVersion_def fetchProject_def try_return_def
        await_then_def settled_def returns_def Let_def backups_failing_backend_def
        example_backend_def example_server_def get_def)
  have b: "usePyroFetch_Backups backups_failing_backend
             [Str ''servers/'', Str ''srv1'', Str ''/backups''] (with_session ''token'') =
           Inl (Str ''timeout'')"
    by (simp add: backups_failing_backend_def)
  have k: "(\<exists>data data'.
        usePyroFetch_Server backups_failing_backend [Str ''servers/'', Str ''srv1'']
          (with_session ''token'') = Inr data \<and>
        outcome (attach_modpack backups_failing_backend data cached_state) = Inr data' \<and>
        usePyroFetch_Backups backups_failing_backend
          [Str ''servers/'', Str ''srv1'', Str ''/backups''] (with_session ''token'') =
          Inl (Str ''timeout''))"
    using d m b by blast
  from fetchServerData_failure [OF disjI1, OF h, of cached_state]
    fetchServerData_failure [OF disjI2, OF disjI2, OF k] h b
  show ?thesis
    by (simp add: as_Error_def)
qed

text \<open>
  C3. When the backend answers \<^verbatim>\<open>fetchServerBackups(auth, serverId)\<close> with a list of
  backups, the call returns a list with the same backups, sorted by \<^verbatim>\<open>created_at\<close>
  descending; the backups of one timestamp are in the order they had in the answer.
  (The sort is the insertion sort above; the comparator never answers 0, so the order of
  equal timestamps rests on the sort asking \<^verbatim>\<open>comparefn(later, earlier) < 0\<close>.)
\<close>

theorem fetchServerBackups_sorted:
  assumes "usePyroFetch_Backups env [Str ''servers/'', Str serverId, Str ''/backups'']
             (with_session auth) = Inr backups"
  shows "\<exists>result.
     outcome (fetchServerBackups env auth serverId st) = Inr (Backups result) \<and>
     mset result = mset backups \<and>
     sorted_wrt (\<lambda>a b. created_at b \<le> created_at a) result \<and>
     (\<forall>t. filter (\<lambda>b. created_at b = t) result = filter (\<lambda>b. created_at b = t) backups)"
  using assms
  by (simp add: outcome_fetchServerBackups mset_js_sort sorted_js_sort stable_js_sort)

text \<open>Backups of 2024-01-01, 2024-03-01 and 2024-01-01 again: the one of March comes
  first, the two of January keep their order.\<close>

theorem fetchServerBackups_sorted_witness:
  "usePyroFetch_Backups example_backend [Str ''servers/'', Str ''srv1'', Str ''/backups'']
     (with_session ''token'') = Inr example_backups \<and>
   outcome (fetchServerBackups example_backend ''token'' ''srv1'' initial_state) =
     Inr (Backups
       [\<lparr>backup_id = ''b2'', backup_name = ''second'', created_at = 20240301\<rparr>,
        \<lparr>backup_id = ''b1'', backup_name = ''first'', created_at = 20240101\<rparr>,
        \<lparr>backup_id = ''b3'', backup_name = ''third'', created_at = 20240101\<rparr>])"
proof -
  have h: "usePyroFetch_Backups example_backend
             [Str ''servers/'', Str ''srv1'', Str ''/backups''] (with_session ''token'') =
           Inr example_backups"
    by (simp add: example_backend_def)
  have c: "js_sort compare_created_at example_backups =
       [\<lparr>backup_id = ''b2'', backup_name = ''second'', created_at = 20240301\<rparr>,
        \<lparr>backup_id = ''b1'', backup_name = ''first'', created_at = 20240101\<rparr>,
        \<lparr>backup_id = ''b3'', backup_name = ''third'', created_at = 20240101\<rparr>]"
    by (simp add: js_sort_def example_backups_def compare_created_at_def)
  from fetchServerBackups_sorted [OF h, of initial_state] h c show ?thesis
    by (simp add: outcome_fetchServerBackups)
qed

text \<open>
  C4. \<^verbatim>\<open>listServers(auth)\<close> leaves the cache as it was, whether the request succeeds or
  fails; when the request fails, with whatever error \<open>e\<close>, the value thrown to the caller
  is the content of the store's error slot (\<^verbatim>\<open>null\<close> when the slot is empty), not \<open>e\<close>.
\<close>

theorem listServers_cache_and_throw:
  "serverData (store (listServers env auth st)) = serverData st \<and>
   (usePyroFetch env [Str ''servers''] (with_session auth) = Inl e \<longrightarrow>
      outcome (listServers env auth st) = Inl (error st))"
  by (simp add: listServers_def returns_def split: sum.splits)

text \<open>The request fails with "network down" while the slot holds an earlier failure: the
  earlier failure is thrown.\<close>

theorem listServers_cache_and_throw_witness:
  "usePyroFetch failing_backend [Str ''servers''] (with_session ''token'') =
     Inl (ErrorObj ''network down'') \<and>
   outcome (listServers failing_backend ''token'' cached_state) =
     Inl (ErrorObj ''earlier failure'') \<and>
   serverData (store (listServers failing_backend ''token'' cached_state)) =
     serverData cached_state"
  using listServers_cache_and_throw
    [of failing_backend "''token''" cached_state "ErrorObj ''network down''"]
  by (simp add: failing_backend_def cached_state_def)

text \<open>
  C5, as the claim states it, fails: a failing \<^verbatim>\<open>sendPowerAction\<close> throws its failure and
  leaves the error slot empty.
\<close>

theorem sendPowerAction_error_slot_counterexample:
  "outcome (sendPowerAction failing_backend ''srv1'' ''start'' initial_state) =
     Inl (ErrorObj ''network down'') \<and>
   error (store (sendPowerAction failing_backend ''srv1'' ''start'' initial_state)) = Null \<and>
   \<not> hasError (store (sendPowerAction failing_backend ''srv1'' ''start'' initial_state))"
  by (simp add: sendPowerAction_def try_await_def log_and_throw_def failing_backend_def
      initial_state_def hasError_def)

text \<open>
  C5, amended. Of the store's operations only \<^verbatim>\<open>fetchServerData\<close> writes a failure to the
  error slot: when it fails, the slot holds the value it throws, which is not empty. Every
  other operation except \<^verbatim>\<open>clearError\<close> leaves the slot as it was, failing or not. The
  slot is empty after \<^verbatim>\<open>clearError()\<close> and after a success of \<^verbatim>\<open>fetchServerData\<close>, and a
  slot that was not empty becomes empty in no other way.
\<close>

theorem error_slot_writers:
  "((\<forall>auth serverId. a \<noteq> FetchServerData auth serverId) \<and> a \<noteq> ClearError \<longrightarrow>
      error (store (run env a st)) = error st) \<and>
   (outcome (run env (FetchServerData auth serverId) st) = Inl e \<longrightarrow>
      error (store (run env (FetchServerData auth serverId) st)) = e \<and> e \<noteq> Null) \<and>
   (outcome (run env (FetchServerData auth serverId) st) = Inr v \<longrightarrow>
      error (store (run env (FetchServerData auth serverId) st)) = Null) \<and>
   error (store (run env ClearError st)) = Null \<and>
   (error st \<noteq> Null \<and> error (store (run env a st)) = Null \<longrightarrow>
      a = ClearError \<or>
      (\<exists>auth serverId v. a = FetchServerData auth serverId \<and> outcome (run env a st) = Inr v))"
proof -
  have 1: "(\<forall>auth serverId. a \<noteq> FetchServerData auth serverId) \<and> a \<noteq> ClearError \<longrightarrow>
      error (store (run env a st)) = error st"
    by (simp add: error_run_other)
  have 2: "outcome (run env (FetchServerData auth serverId) st) = Inl e \<longrightarrow>
      error (store (run env (FetchServerData auth serverId) st)) = e \<and> e \<noteq> Null"
    using fetchServerData_outcome_store [of env auth serverId st] by auto
  have 3: "outcome (run env (FetchServerData auth serverId) st) = Inr v \<longrightarrow>
      error (store (run env (FetchServerData auth serverId) st)) = Null"
    using fetchServerData_outcome_store [of env auth serverId st] by auto
  have 4: "error (store (run env ClearError st)) = Null"
    by (simp add: clearError_def returns_def)
  have 5: "error st \<noteq> Null \<and> error (store (run env a st)) = Null \<longrightarrow>
      a = ClearError \<or>
      (\<exists>auth serverId v. a = FetchServerData auth serverId \<and> outcome (run env a st) = Inr v)"
  proof (intro impI, elim conjE)
    assume ne: "error st \<noteq> Null" and eq: "error (store (run env a st)) = Null"
    show "a = ClearError \<or>
      (\<exists>auth serverId v. a = FetchServerData auth serverId \<and> outcome (run env a st) = Inr v)"
    proof (cases "a = ClearError")
      case True
      then show ?thesis by simp
    next
      case nc: False
      show ?thesis
      proof (cases "\<exists>auth serverId. a = FetchServerData auth serverId")
        case True
        then obtain auth' sid' where a: "a = FetchServerData auth' sid'" by blast
        have "\<exists>v. outcome (run env a st) = Inr v"
          using fetchServerData_outcome_store [of env auth' sid' st] eq a
          by (cases "outcome (fetchServerData env auth' sid' st)") auto
        with a show ?thesis by blast
      next
        case False
        with nc error_run_other [of a env st] ne eq show ?thesis by auto
      qed
    qed
  qed
  from 1 2 3 4 5 show ?thesis by blast
qed

text \<open>A failing \<^verbatim>\<open>sendPowerAction\<close> leaves the earlier failure in the slot; a failing
  \<^verbatim>\<open>fetchServerData\<close> replaces it.\<close>

theorem error_slot_writers_witness:
  "outcome (run failing_backend (SendPowerAction ''srv1'' ''start'') cached_state) =
     Inl (ErrorObj ''network down'') \<and>
   error (store (run failing_backend (SendPowerAction ''srv1'' ''start'') cached_state)) =
     ErrorObj ''earlier failure'' \<and>
   outcome (run failing_backend (FetchServerData ''token'' ''srv1'') cached_state) =
     Inl (ErrorObj ''network down'') \<and>
   error (store (run failing_backend (FetchServerData ''token'' ''srv1'') cached_state)) =
     ErrorObj ''network down''"
proof -
  have o1: "outcome (run failing_backend (SendPowerAction ''srv1'' ''start'') cached_state) =
     Inl (ErrorObj ''network down'')"
    by (simp add: sendPowerAction_def try_await_def log_and_throw_def failing_backend_def)
  have o2: "outcome (run failing_backend (FetchServerData ''token'' ''srv1'') cached_state) =
     Inl (ErrorObj ''network down'')"
    by (simp add: fetchServerData_def fetchServerData_try_def await_then_def settled_def
        Let_def failing_backend_def as_Error_def)
  have e: "error cached_state = ErrorObj ''earlier failure''"
    by (simp add: cached_state_def)
  from error_slot_writers [of "SendPowerAction ''srv1'' ''start''" failing_backend cached_state
      "''token''" "''srv1''" "ErrorObj ''network down''"] o1 o2 e
  show ?thesis by simp
qed

text \<open>
  C6. The claim holds for a cached identifier (\<open>updateServerData_cached\<close>) and whenever
  \<^verbatim>\<open>this.serverData[s]\<close> is falsy (\<open>updateServerData_falsy\<close>), but the guard of the code
  misses the identifiers that name a member inherited from \<^verbatim>\<open>Object.prototype\<close>:
  \<^verbatim>\<open>updateServerData("constructor", {name: "X"})\<close> on the initial store, where
  \<^verbatim>\<open>constructor\<close> is not cached, reads the inherited function, which is truthy, writes no
  warning and creates the entry \<^verbatim>\<open>{name: "X"}\<close>.
\<close>

theorem updateServerData_creates_entry:
  "serverData (initial_state :: nat ServerState) ''constructor'' = None \<and>
   lookup (serverData (initial_state :: nat ServerState)) ''constructor'' =
     Builtin ''constructor'' \<and>
   serverData (store (updateServerData ''constructor'' [''name'' \<mapsto> Str ''X'']
     (initial_state :: nat ServerState))) = [''constructor'' \<mapsto> [''name'' \<mapsto> Str ''X'']] \<and>
   console (updateServerData ''constructor'' [''name'' \<mapsto> Str ''X'']
     (initial_state :: nat ServerState)) = [] \<and>
   outcome (updateServerData ''constructor'' [''name'' \<mapsto> Str ''X'']
     (initial_state :: nat ServerState)) = Inr Undefined"
  by (simp add: updateServerData_def returns_def initial_state_def lookup_def inherited_def
      object_prototype_members_def)

text \<open>
  C7. After a successful rename request the claim holds for a cached identifier
  (\<open>updateServerName_cached\<close>) and whenever \<^verbatim>\<open>this.serverData[serverId]\<close> is falsy
  (\<open>updateServerName_falsy\<close>), as for \<^verbatim>\<open>srv1\<close> on the empty store. But the branch of the code
  misses the identifiers that name a member inherited from \<^verbatim>\<open>Object.prototype\<close>:
  \<^verbatim>\<open>updateServerName("constructor", "new")\<close> on the initial store, where \<^verbatim>\<open>constructor\<close> is
  not cached, takes the merge branch, creates the entry \<^verbatim>\<open>{name: "new"}\<close> and writes no
  warning.
\<close>

theorem updateServerName_creates_entry:
  "usePyroFetch example_backend [Str ''servers/'', Str ''constructor'', Str ''/name'']
     (with_body ''POST'' (Obj [''name'' \<mapsto> Str ''new''])) = Inr Undefined \<and>
   serverData (initial_state :: nat ServerState) ''constructor'' = None \<and>
   serverData (store (updateServerName example_backend ''constructor'' ''new'' initial_state)) =
     [''constructor'' \<mapsto> [''name'' \<mapsto> Str ''new'']] \<and>
   console (updateServerName example_backend ''constructor'' ''new'' initial_state) = [] \<and>
   outcome (updateServerName example_backend ''constructor'' ''new'' initial_state) =
     Inr Undefined \<and>
   serverData (store (updateServerName example_backend ''srv1'' ''new'' initial_state)) =
     Map.empty \<and>
   console (updateServerName example_backend ''srv1'' ''new'' initial_state) =
     [ConsoleWarn ''Attempting to update name for non-existent server data. Server ID: srv1'']"
  by (simp add: updateServerName_def returns_def initial_state_def lookup_def inherited_def
      object_prototype_members_def example_backend_def)

text \<open>
  C8. \<^verbatim>\<open>createBackup\<close>, \<^verbatim>\<open>renameBackup\<close>, \<^verbatim>\<open>deleteBackup\<close>, \<^verbatim>\<open>restoreBackup\<close>,
  \<^verbatim>\<open>downloadBackup\<close> and \<^verbatim>\<open>sendPowerAction\<close> leave the cache as it was, whatever the
  backend answers.
\<close>

theorem backup_and_power_actions_keep_cache:
  "serverData (store (createBackup env serverId backupName st)) = serverData st \<and>
   serverData (store (renameBackup env serverId backupId newName st)) = serverData st \<and>
   serverData (store (deleteBackup env serverId backupId st)) = serverData st \<and>
   serverData (store (restoreBackup env serverId backupId st)) = serverData st \<and>
   serverData (store (downloadBackup env serverId backupId st)) = serverData st \<and>
   serverData (store (sendPowerAction env serverId action st)) = serverData st"
  by (simp add: createBackup_def renameBackup_def deleteBackup_def restoreBackup_def
      downloadBackup_def sendPowerAction_def store_try_return store_try_await)

text \<open>
  C9. For an identifier that names nothing \<^verbatim>\<open>Object.prototype\<close> provides the claim holds
  (\<open>getServerData_absent_plain\<close>). But \<^verbatim>\<open>state.serverData[serverId]\<close> on the plain object
  also finds what the object inherits: on the initial store, where nothing was ever
  fetched, \<^verbatim>\<open>getServerData("toString")\<close> is the function \<^verbatim>\<open>Object.prototype.toString\<close>, not
  \<^verbatim>\<open>undefined\<close>, although the getter is declared to return \<^verbatim>\<open>Server | undefined\<close>.
\<close>

theorem getServerData_inherited_member:
  "serverData (initial_state :: nat ServerState) ''toString'' = None \<and>
   getServerData (initial_state :: nat ServerState) ''toString'' = Builtin ''toString'' \<and>
   getServerData (initial_state :: nat ServerState) ''toString'' \<noteq> Undefined \<and>
   getServerData (initial_state :: nat ServerState) ''srv1'' = Undefined"
  by (simp add: getServerData_def lookup_def inherited_def object_prototype_members_def
      initial_state_def)

text \<open>
  C10. When the rename request of \<^verbatim>\<open>updateServerName(serverId, newName)\<close> fails with \<open>e\<close>,
  the store (the cache and the error slot) is as it was, cached \<open>serverId\<close> or not, and
  \<open>e\<close> is thrown to the caller.
\<close>

theorem updateServerName_failure:
  assumes "usePyroFetch env [Str ''servers/'', Str serverId, Str ''/name'']
             (with_body ''POST'' (Obj [''name'' \<mapsto> Str newName])) = Inl e"
  shows "serverData (store (updateServerName env serverId newName st)) = serverData st \<and>
         store (updateServerName env serverId newName st) = st \<and>
         outcome (updateServerName env serverId newName st) = Inl e"
  using assms by (simp add: updateServerName_def log_and_throw_def)

text \<open>The rename of the cached \<^verbatim>\<open>srv1\<close> fails: its entry keeps the old name.\<close>

theorem updateServerName_failure_witness:
  "usePyroFetch failing_backend [Str ''servers/'', Str ''srv1'', Str ''/name'']
     (with_body ''POST'' (Obj [''name'' \<mapsto> Str ''new''])) = Inl (ErrorObj ''network down'') \<and>
   store (updateServerName failing_backend ''srv1'' ''new'' cached_state) = cached_state \<and>
   getServerData (store (updateServerName failing_backend ''srv1'' ''new'' cached_state))
       ''srv1'' =
     Obj [''name'' \<mapsto> Str ''old'', ''status'' \<mapsto> Str ''running''] \<and>
   outcome (updateServerName failing_backend ''srv1'' ''new'' cached_state) =
     Inl (ErrorObj ''network down'')"
proof -
  have h: "usePyroFetch failing_backend [Str ''servers/'', Str ''srv1'', Str ''/name'']
     (with_body ''POST'' (Obj [''name'' \<mapsto> Str ''new''])) = Inl (ErrorObj ''network down'')"
    by (simp add: failing_backend_def)
  have c: "getServerData cached_state ''srv1'' =
     Obj [''name'' \<mapsto> Str ''old'', ''status'' \<mapsto> Str ''running'']"
    by (simp add: getServerData_def lookup_def cached_state_def)
  from updateServerName_failure [OF h, of cached_state] h c show ?thesis by simp
qed

end
